theory Spec2Isabelle
  imports Main "HOL-Library.Word"
begin

unbundle bit_operations_syntax

section \<open>The single-file handle (FileIO.h)\<close>

text \<open>
  The operating system is outside the repository. Every \<open>os_*\<close> call of the source is
  represented by what the call returned: the model functions take, as their first
  argument, the function from the call's arguments (the descriptor first) to its result.
  Arguments that the source only hands on to the system call (a seek offset, a new
  size) are arguments of that function.

  Machine integers: \<open>int\<close> and \<open>int64_t\<close> values are \<open>int\<close>, \<open>size_t\<close> values are
  \<open>nat\<close> (below \<open>2 ^ 64\<close>); the conversions the source performs between them
  (\<open>unsigned(Size)\<close>, the comparison \<open>res == Size\<close> of an \<open>int\<close> with a \<open>size_t\<close>, the
  final \<open>int(cnt)\<close> of \<open>compare\<close>) are written out. Bytes are \<open>8 word\<close>, the error
  flags are the \<open>uint16_t\<close> member \<open>value\<close> of the union, a \<open>16 word\<close>.
\<close>

type_synonym byte = "8 word"
type_synonym error_flags = "16 word"

text \<open>The bit-fields of \<open>struct error_flags\<close>, in declaration order from bit 0 (the
  source relies on this layout: \<open>e_flags{1}\<close> is "the open error flag" and
  \<open>value & 0xff\<close> are "the bad bits").\<close>

definition EF_open :: error_flags where "EF_open = 0x0001"
definition EF_reopen :: error_flags where "EF_reopen = 0x0002"
definition EF_eacces :: error_flags where "EF_eacces = 0x0004"
definition EF_eexists :: error_flags where "EF_eexists = 0x0008"
definition EF_einval :: error_flags where "EF_einval = 0x0010"
definition EF_emfile :: error_flags where "EF_emfile = 0x0020"
definition EF_enoent :: error_flags where "EF_enoent = 0x0040"
definition EF_invalid :: error_flags where "EF_invalid = 0x0080"
definition EF_commit :: error_flags where "EF_commit = 0x0100"
definition EF_seek :: error_flags where "EF_seek = 0x0200"
definition EF_tell :: error_flags where "EF_tell = 0x0400"
definition EF_read :: error_flags where "EF_read = 0x0800"
definition EF_write :: error_flags where "EF_write = 0x1000"
definition EF_corrupt :: error_flags where "EF_corrupt = 0x2000"

text \<open>The \<open>errno\<close> values the source names (the same on Windows and on Linux).\<close>

definition ENOENT :: int where "ENOENT = 2"
definition EBADF :: int where "EBADF = 9"
definition EACCES :: int where "EACCES = 13"
definition EEXIST :: int where "EEXIST = 17"
definition EINVAL :: int where "EINVAL = 22"
definition EMFILE :: int where "EMFILE = 24"
definition ENOSPC :: int where "ENOSPC = 28"

text \<open>Assigning an \<open>int\<close> to a one-bit unsigned bit-field keeps its lowest bit;
  \<open>field |= v\<close> ors that bit in.\<close>

definition assign_field :: "error_flags \<Rightarrow> int \<Rightarrow> error_flags \<Rightarrow> error_flags" where
  "assign_field m v e = (if v mod 2 = 1 then e OR m else e AND NOT m)"

definition or_field :: "error_flags \<Rightarrow> int \<Rightarrow> error_flags \<Rightarrow> error_flags" where
  "or_field m v e = (if v mod 2 = 1 then e OR m else e)"

definition ef_good :: "error_flags \<Rightarrow> bool" where
  "ef_good e = (e = 0)"

definition ef_fail :: "error_flags \<Rightarrow> bool" where
  "ef_fail e = (e \<noteq> 0)"

definition ef_bad :: "error_flags \<Rightarrow> bool" where
  "ef_bad e = (e AND 0xff \<noteq> 0)"

text \<open>\<open>bad(int fh)\<close>: \<open>open = (fh == -1); return bad();\<close>\<close>

definition ef_bad_fh :: "int \<Rightarrow> error_flags \<Rightarrow> bool \<times> error_flags" where
  "ef_bad_fh fh e =
     (let e' = assign_field EF_open (if fh = -1 then 1 else 0) e in (ef_bad e', e'))"

definition fill_open_errors :: "int \<Rightarrow> error_flags" where
  "fill_open_errors err =
     (assign_field EF_enoent (err AND ENOENT)
     (assign_field EF_emfile (err AND EMFILE)
     (assign_field EF_einval (err AND EINVAL)
     (assign_field EF_eexists (err AND EEXIST)
     (assign_field EF_eacces (err AND EACCES) 0)))))"

record BasicFile =
  f_handle :: int
  e_flags :: error_flags

text \<open>\<open>BasicFile() : f_handle{-1}, e_flags{1}\<close>\<close>

definition BasicFile_init :: BasicFile where
  "BasicFile_init = \<lparr>f_handle = -1, e_flags = 1\<rparr>"

definition BasicFile_bad :: "BasicFile \<Rightarrow> bool \<times> BasicFile" where
  "BasicFile_bad f = (let (b, e) = ef_bad_fh (f_handle f) (e_flags f) in (b, f\<lparr>e_flags := e\<rparr>))"

definition BasicFile_fail :: "BasicFile \<Rightarrow> bool" where
  "BasicFile_fail f = ef_fail (e_flags f)"

definition BasicFile_good :: "BasicFile \<Rightarrow> bool" where
  "BasicFile_good f = ef_good (e_flags f)"

definition BasicFile_is_open :: "BasicFile \<Rightarrow> bool" where
  "BasicFile_is_open f = (f_handle f \<noteq> -1)"

definition BasicFile_length :: "(int \<Rightarrow> int) \<Rightarrow> BasicFile \<Rightarrow> int \<times> BasicFile" where
  "BasicFile_length os_size f =
     (let res = os_size (f_handle f) in
      if res = -1 then (res, f\<lparr>e_flags := e_flags f OR EF_invalid\<rparr>) else (res, f))"

definition BasicFile_eof :: "(int \<Rightarrow> int) \<Rightarrow> BasicFile \<Rightarrow> int \<times> BasicFile" where
  "BasicFile_eof os_eof f =
     (let res = os_eof (f_handle f) in
      if res = -1 then (res, f\<lparr>e_flags := e_flags f OR EF_invalid\<rparr>) else (res, f))"

text \<open>\<open>commit\<close> returns true on error, false on success.\<close>

definition BasicFile_commit :: "(int \<Rightarrow> int) \<Rightarrow> BasicFile \<Rightarrow> bool \<times> BasicFile" where
  "BasicFile_commit os_commit f =
     (if BasicFile_is_open f \<and> BasicFile_good f then
        (let res = os_commit (f_handle f) in
         if res \<noteq> 0 then (True, f\<lparr>e_flags := e_flags f OR EF_invalid\<rparr>) else (False, f))
      else (True, f))"

definition BasicFile_chsize :: "(int \<Rightarrow> int \<Rightarrow> int) \<Rightarrow> int \<Rightarrow> BasicFile \<Rightarrow> bool \<times> BasicFile" where
  "BasicFile_chsize os_chsize NewSize f =
     (let err = os_chsize (f_handle f) NewSize in
      if err \<noteq> 0 then
        (True, f\<lparr>e_flags :=
           or_field EF_einval (err AND EINVAL)
             (or_field EF_eacces (err AND (EBADF OR ENOSPC)) (e_flags f OR EF_invalid))\<rparr>)
      else (False, f))"

definition BasicFile_seek :: "(int \<Rightarrow> int \<Rightarrow> int \<Rightarrow> int) \<Rightarrow> int \<Rightarrow> int \<Rightarrow> BasicFile \<Rightarrow> int \<times> BasicFile" where
  "BasicFile_seek os_seek Pos Dir f =
     (let res = os_seek (f_handle f) Pos Dir in
      if res = -1 then (res, f\<lparr>e_flags := (e_flags f OR EF_seek) OR EF_invalid\<rparr>) else (res, f))"

definition BasicFile_tell :: "(int \<Rightarrow> int) \<Rightarrow> BasicFile \<Rightarrow> int \<times> BasicFile" where
  "BasicFile_tell os_tell f =
     (let res = os_tell (f_handle f) in
      if res = -1 then (res, f\<lparr>e_flags := (e_flags f OR EF_invalid) OR EF_tell\<rparr>) else (res, f))"

text \<open>\<open>unsigned(Size)\<close>, and an \<open>int\<close> converted to \<open>size_t\<close> for \<open>res == Size\<close>.\<close>

definition unsigned_of_size_t :: "nat \<Rightarrow> nat" where
  "unsigned_of_size_t Size = Size mod 2 ^ 32"

definition size_t_of_int :: "int \<Rightarrow> nat" where
  "size_t_of_int res = nat (res mod 2 ^ 64)"

text \<open>What a system \<open>read\<close> leaves in the buffer it was given: the bytes it delivered,
  followed by the buffer's old content.\<close>

definition os_store :: "byte list \<Rightarrow> byte list \<Rightarrow> byte list" where
  "os_store bs Buf = bs @ drop (length bs) Buf"

text \<open>\<open>read\<close>: the system call returns its \<open>int\<close> result and the bytes it delivered.
  The result is (error, buffer afterwards, handle afterwards).\<close>

definition BasicFile_read ::
  "(int \<Rightarrow> nat \<Rightarrow> int \<times> byte list) \<Rightarrow> byte list \<Rightarrow> nat \<Rightarrow> BasicFile \<Rightarrow> bool \<times> byte list \<times> BasicFile" where
  "BasicFile_read os_read Buf Size f =
     (let (res, bs) = os_read (f_handle f) (unsigned_of_size_t Size);
          Buf' = os_store bs Buf in
      if size_t_of_int res = Size then (False, Buf', f)
      else (True, Buf',
            f\<lparr>e_flags := (if res = -1 then (e_flags f OR EF_read) OR EF_invalid
                           else e_flags f OR EF_read)\<rparr>))"

text \<open>\<open>write\<close>: the second component is the system call that was issued (descriptor,
  buffer, count).\<close>

type_synonym os_write_call = "int \<times> byte list \<times> nat"

definition BasicFile_write ::
  "(int \<Rightarrow> byte list \<Rightarrow> nat \<Rightarrow> int) \<Rightarrow> byte list \<Rightarrow> nat \<Rightarrow> BasicFile \<Rightarrow> bool \<times> os_write_call \<times> BasicFile" where
  "BasicFile_write os_write Buf Size f =
     (let call = (f_handle f, Buf, unsigned_of_size_t Size);
          res = os_write (f_handle f) Buf (unsigned_of_size_t Size) in
      if size_t_of_int res = Size then (False, call, f)
      else (True, call,
            f\<lparr>e_flags := (if res = -1 then (e_flags f OR EF_write) OR EF_invalid
                           else e_flags f OR EF_write)\<rparr>))"

text \<open>\<open>close\<close>: the results of \<open>os_commit\<close> and \<open>os_close\<close> are ignored.\<close>

definition BasicFile_close :: "BasicFile \<Rightarrow> BasicFile" where
  "BasicFile_close f = (if BasicFile_is_open f then f\<lparr>f_handle := -1\<rparr> else f)"

text \<open>\<open>open\<close>: \<open>os_open\<close> returns the descriptor it stored in \<open>f_handle\<close> and its
  \<open>errno_t\<close> result. The result of \<open>open\<close> is \<open>!good()\<close> as an \<open>int\<close>.\<close>

definition BasicFile_open ::
  "(string \<Rightarrow> int \<Rightarrow> int \<times> int) \<Rightarrow> string \<Rightarrow> int \<Rightarrow> BasicFile \<Rightarrow> int \<times> BasicFile" where
  "BasicFile_open os_open Path Flags f =
     (let f0 = f\<lparr>e_flags := 0\<rparr>;
          f1 = (if f_handle f0 \<noteq> -1 then
                  BasicFile_close (f0\<lparr>e_flags := e_flags f0 OR EF_reopen\<rparr>)
                else
                  (let (fh, err) = os_open Path Flags;
                       f2 = f0\<lparr>f_handle := fh, e_flags := fill_open_errors err\<rparr> in
                   if f_handle f2 = -1 then f2\<lparr>e_flags := e_flags f2 OR EF_open\<rparr>
                   else if err \<noteq> 0 then f2\<lparr>e_flags := e_flags f2 OR EF_open, f_handle := -1\<rparr>
                   else f2))
      in ((if BasicFile_good f1 then 0 else 1), f1))"

text \<open>\<open>FileRW::open_\<close> (here \<open>FileRW_open_impl\<close>: a name cannot end in an underscore) and \<open>FileRO::open\<close>: \<open>BasicFile::open(...) == 0\<close>. (\<open>FileRO::open\<close>
  first masks its flags with \<open>filter_open\<close>, which changes only the flag word that the
  system call receives.)\<close>

definition FileRW_open_impl ::
  "(string \<Rightarrow> int \<Rightarrow> int \<times> int) \<Rightarrow> string \<Rightarrow> int \<Rightarrow> BasicFile \<Rightarrow> bool \<times> BasicFile" where
  "FileRW_open_impl os_open Path flags f =
     (let (r, f') = BasicFile_open os_open Path flags f in (r = 0, f'))"

definition FileRO_open ::
  "(string \<Rightarrow> int \<Rightarrow> int \<times> int) \<Rightarrow> string \<Rightarrow> int \<Rightarrow> BasicFile \<Rightarrow> bool \<times> BasicFile" where
  "FileRO_open os_open Path flags f =
     (let (r, f') = BasicFile_open os_open Path flags f in (r = 0, f'))"

section \<open>The coordinator (MultiFileIO.h and its implementation file)\<close>

record MultiFile =
  hdl :: BasicFile
  copies :: "BasicFile list"
  NumCopies :: int
  OpenFlags :: int

text \<open>\<open>MultiFile() = default\<close>: the primary and the five slots of \<open>copies[5]\<close> are
  default-constructed handles, \<open>NumCopies{0}\<close>, \<open>OpenFlags{0}\<close>. The thread-local
  verification \<open>buffer\<close> is passed to, and returned by, the one operation that uses it.\<close>

definition MultiFile_init :: MultiFile where
  "MultiFile_init =
     \<lparr>hdl = BasicFile_init, copies = replicate 5 BasicFile_init, NumCopies = 0, OpenFlags = 0\<rparr>"

text \<open>\<open>for (int i = 0; i < NumCopies; i++) { ... copies[i].op(...) ... }\<close>: the body takes
  the handle \<open>copies[i]\<close> and the loop's local variables, and returns the variables and
  the handle as the call left it.\<close>

definition for_copies ::
  "(BasicFile \<Rightarrow> 'a \<Rightarrow> 'a \<times> BasicFile) \<Rightarrow> int \<Rightarrow> 'a \<times> BasicFile list \<Rightarrow> 'a \<times> BasicFile list" where
  "for_copies body n =
     fold (\<lambda>i (acc, cs). let (acc', c) = body (cs ! i) acc in (acc', cs[i := c])) [0..<nat n]"

definition MultiFile_open_impl ::
  "(string \<Rightarrow> int \<Rightarrow> int \<times> int) \<Rightarrow> string \<Rightarrow> int \<Rightarrow> MultiFile \<Rightarrow> bool \<times> MultiFile" where
  "MultiFile_open_impl os_open Path Flags mf =
     (let mf1 = mf\<lparr>NumCopies := 0\<rparr>;
          mf2 = mf1\<lparr>OpenFlags := Flags\<rparr>;
          (ok, h) = FileRW_open_impl os_open Path Flags (hdl mf2)
      in (ok, mf2\<lparr>hdl := h\<rparr>))"

definition MultiFile_add ::
  "(string \<Rightarrow> int \<Rightarrow> int \<times> int) \<Rightarrow> string \<Rightarrow> MultiFile \<Rightarrow> bool \<times> MultiFile" where
  "MultiFile_add os_open Path mf =
     (if NumCopies mf < 0 \<or> NumCopies mf \<ge> 5 then (False, mf)
      else
        (let i = nat (NumCopies mf);
             (ok, c) = FileRW_open_impl os_open Path (OpenFlags mf) (copies mf ! i);
             mf1 = mf\<lparr>copies := (copies mf)[i := c]\<rparr>
         in if \<not> ok then (False, mf1)
            else (True, mf1\<lparr>NumCopies := NumCopies mf1 + 1\<rparr>)))"

definition MultiFile_close :: "MultiFile \<Rightarrow> MultiFile" where
  "MultiFile_close mf =
     (let h = BasicFile_close (hdl mf);
          (u, cs) = for_copies (\<lambda>c (u::unit). (u, BasicFile_close c)) (NumCopies mf) ((), copies mf)
      in mf\<lparr>hdl := h, copies := cs\<rparr>)"

definition MultiFile_bad :: "MultiFile \<Rightarrow> bool \<times> MultiFile" where
  "MultiFile_bad mf =
     (let (B0, h) = BasicFile_bad (hdl mf);
          (B, cs) = for_copies (\<lambda>c B. let (b, c') = BasicFile_bad c in (B \<or> b, c'))
                      (NumCopies mf) (B0, copies mf)
      in (B, mf\<lparr>hdl := h, copies := cs\<rparr>))"

definition MultiFile_fail :: "MultiFile \<Rightarrow> bool" where
  "MultiFile_fail mf =
     fst (for_copies (\<lambda>c B. (B \<or> BasicFile_fail c, c)) (NumCopies mf)
            (BasicFile_fail (hdl mf), copies mf))"

definition MultiFile_good :: "MultiFile \<Rightarrow> bool" where
  "MultiFile_good mf =
     fst (for_copies (\<lambda>c B. (B \<and> BasicFile_good c, c)) (NumCopies mf)
            (BasicFile_good (hdl mf), copies mf))"

definition MultiFile_is_open :: "MultiFile \<Rightarrow> bool" where
  "MultiFile_is_open mf =
     fst (for_copies (\<lambda>c B. (B \<and> BasicFile_is_open c, c)) (NumCopies mf)
            (BasicFile_is_open (hdl mf), copies mf))"

definition MultiFile_is_closed :: "MultiFile \<Rightarrow> bool" where
  "MultiFile_is_closed mf =
     (let B = fst (for_copies (\<lambda>c B. (B \<or> BasicFile_is_open c, c)) (NumCopies mf)
                     (BasicFile_is_open (hdl mf), copies mf))
      in \<not> B)"

definition MultiFile_eof :: "(int \<Rightarrow> int) \<Rightarrow> MultiFile \<Rightarrow> int \<times> MultiFile" where
  "MultiFile_eof os_eof mf =
     (let (R0, h) = BasicFile_eof os_eof (hdl mf);
          (R, cs) = for_copies (\<lambda>c R. let (r, c') = BasicFile_eof os_eof c in
                                        ((if r \<noteq> R then -1 else R), c'))
                      (NumCopies mf) (R0, copies mf)
      in (R, mf\<lparr>hdl := h, copies := cs\<rparr>))"

definition MultiFile_eflags :: "MultiFile \<Rightarrow> error_flags" where
  "MultiFile_eflags mf =
     fst (for_copies (\<lambda>c fl. (fl OR e_flags c, c)) (NumCopies mf) (e_flags (hdl mf), copies mf))"

text \<open>\<open>commit\<close>: \<open>bool B{ hdl.commit() }; ... B &= copies[i].commit(); ... return B;\<close>\<close>

definition MultiFile_commit :: "(int \<Rightarrow> int) \<Rightarrow> MultiFile \<Rightarrow> bool \<times> MultiFile" where
  "MultiFile_commit os_commit mf =
     (let (B0, h) = BasicFile_commit os_commit (hdl mf);
          (B, cs) = for_copies (\<lambda>c B. let (b, c') = BasicFile_commit os_commit c in (B \<and> b, c'))
                      (NumCopies mf) (B0, copies mf)
      in (B, mf\<lparr>hdl := h, copies := cs\<rparr>))"

definition MultiFile_length :: "(int \<Rightarrow> int) \<Rightarrow> MultiFile \<Rightarrow> int \<times> MultiFile" where
  "MultiFile_length os_size mf =
     (let (L0, h) = BasicFile_length os_size (hdl mf);
          (L, cs) = for_copies (\<lambda>c L. let (l, c') = BasicFile_length os_size c in
                                        ((if l \<noteq> L then -1 else L), c'))
                      (NumCopies mf) (L0, copies mf)
      in (L, mf\<lparr>hdl := h, copies := cs\<rparr>))"

definition MultiFile_seek ::
  "(int \<Rightarrow> int \<Rightarrow> int \<Rightarrow> int) \<Rightarrow> int \<Rightarrow> int \<Rightarrow> MultiFile \<Rightarrow> int \<times> MultiFile" where
  "MultiFile_seek os_seek Pos Dir mf =
     (let (P0, h) = BasicFile_seek os_seek Pos Dir (hdl mf);
          (P, cs) = for_copies (\<lambda>c P. let (p, c') = BasicFile_seek os_seek Pos Dir c in
                                        ((if P \<noteq> p then -1 else P), c'))
                      (NumCopies mf) (P0, copies mf)
      in (P, mf\<lparr>hdl := h, copies := cs\<rparr>))"

definition MultiFile_tell :: "(int \<Rightarrow> int) \<Rightarrow> MultiFile \<Rightarrow> int \<times> MultiFile" where
  "MultiFile_tell os_tell mf =
     (let (P0, h) = BasicFile_tell os_tell (hdl mf);
          (P, cs) = for_copies (\<lambda>c P. let (p, c') = BasicFile_tell os_tell c in
                                        ((if P \<noteq> p then -1 else P), c'))
                      (NumCopies mf) (P0, copies mf)
      in (P, mf\<lparr>hdl := h, copies := cs\<rparr>))"

definition MultiFile_chsize ::
  "(int \<Rightarrow> int \<Rightarrow> int) \<Rightarrow> int \<Rightarrow> MultiFile \<Rightarrow> bool \<times> MultiFile" where
  "MultiFile_chsize os_chsize NewSize mf =
     (let (E0, h) = BasicFile_chsize os_chsize NewSize (hdl mf);
          (E, cs) = for_copies (\<lambda>c E. let (e, c') = BasicFile_chsize os_chsize NewSize c in
                                        (E \<or> e, c'))
                      (NumCopies mf) (E0, copies mf)
      in (E, mf\<lparr>hdl := h, copies := cs\<rparr>))"

text \<open>\<open>write\<close>: \<open>Error = copies[i].write(_Buf, Size) || Error;\<close> calls \<open>write\<close> before it
  looks at \<open>Error\<close>. The result is (error, the system calls issued in order, coordinator).\<close>

definition MultiFile_write ::
  "(int \<Rightarrow> byte list \<Rightarrow> nat \<Rightarrow> int) \<Rightarrow> byte list \<Rightarrow> nat \<Rightarrow> MultiFile
     \<Rightarrow> bool \<times> os_write_call list \<times> MultiFile" where
  "MultiFile_write os_write Buf Size mf =
     (let (E0, call0, h) = BasicFile_write os_write Buf Size (hdl mf);
          ((Error, calls), cs) =
             for_copies (\<lambda>c (Error, calls).
                           let (e, call, c') = BasicFile_write os_write Buf Size c in
                           ((e \<or> Error, calls @ [call]), c'))
               (NumCopies mf) ((E0, [call0]), copies mf)
      in (Error, calls, mf\<lparr>hdl := h, copies := cs\<rparr>))"

text \<open>\<open>buffer.resize(Size)\<close> on a \<open>std::vector<uint8_t>\<close>, and \<open>memcmp(...) != 0\<close> over
  \<open>Size\<close> bytes.\<close>

definition vector_resize :: "nat \<Rightarrow> byte list \<Rightarrow> byte list" where
  "vector_resize n v = take n v @ replicate (n - length v) 0"

definition memcmp_differs :: "byte list \<Rightarrow> byte list \<Rightarrow> nat \<Rightarrow> bool" where
  "memcmp_differs p q n = (take n p \<noteq> take n q)"

text \<open>\<open>read\<close>: \<open>Ptr\<close> is the content of the caller's buffer, \<open>buffer\<close> the content of the
  thread-local verification buffer. The result is (error, caller's buffer, coordinator,
  verification buffer).\<close>

definition MultiFile_read ::
  "(int \<Rightarrow> nat \<Rightarrow> int \<times> byte list) \<Rightarrow> byte list \<Rightarrow> nat \<Rightarrow> MultiFile \<times> byte list
     \<Rightarrow> bool \<times> byte list \<times> MultiFile \<times> byte list" where
  "MultiFile_read os_read Ptr Size st =
     (let mf = fst st;
          Buf0 = vector_resize Size (snd st);
          (e0, Ptr', h) = BasicFile_read os_read Ptr Size (hdl mf);
          Error0 = (e0 \<or> BasicFile_fail h);
          ((Error, Buf), cs) =
             for_copies (\<lambda>c (Error, Buf).
                           let (e, Buf', c') = BasicFile_read os_read Buf Size c;
                               Error1 = (e \<or> BasicFile_fail c' \<or> Error);
                               Error2 = (memcmp_differs Ptr' Buf' Size \<or> Error1)
                           in ((Error2, Buf'), c'))
               (NumCopies mf) ((Error0, Buf0), copies mf)
      in (Error, Ptr', mf\<lparr>hdl := h, copies := cs\<rparr>, Buf))"

text \<open>The flag masks of \<open>FileRW\<close>. The \<open>O_*\<close> macros come from the platform's
  \<open><fcntl.h>\<close>; the values of the Windows header are used (\<open>_O_RDONLY\<close>, \<open>_sopen_s\<close> and
  \<open>_close\<close> are its names). In C++ \<open>&\<close> binds tighter than \<open>|\<close>.\<close>

definition O_RDONLY :: int where "O_RDONLY = 0x0000"
definition O_WRONLY :: int where "O_WRONLY = 0x0001"
definition O_RDWR :: int where "O_RDWR = 0x0002"
definition O_CREAT :: int where "O_CREAT = 0x0100"
definition O_EXCL :: int where "O_EXCL = 0x0400"

definition FileRW_filter_open :: "int \<Rightarrow> int" where
  "FileRW_filter_open flags =
     (flags OR O_RDWR) AND NOT (O_RDONLY OR (O_WRONLY AND O_CREAT AND O_EXCL))"

definition FileRW_filter_excl :: "int \<Rightarrow> int" where
  "FileRW_filter_excl flags =
     (flags OR O_RDWR OR O_CREAT OR O_EXCL) AND NOT (O_RDONLY OR O_WRONLY)"

definition FileRW_filter_create :: "int \<Rightarrow> int" where
  "FileRW_filter_create flags =
     (flags OR O_RDWR OR O_CREAT) AND NOT (O_RDONLY OR (O_WRONLY AND O_EXCL))"

definition MultiFile_open ::
  "(string \<Rightarrow> int \<Rightarrow> int \<times> int) \<Rightarrow> string \<Rightarrow> int \<Rightarrow> MultiFile \<Rightarrow> bool \<times> MultiFile" where
  "MultiFile_open os_open Path flags mf =
     MultiFile_open_impl os_open Path (FileRW_filter_open flags) mf"

definition MultiFile_excl ::
  "(string \<Rightarrow> int \<Rightarrow> int \<times> int) \<Rightarrow> string \<Rightarrow> int \<Rightarrow> MultiFile \<Rightarrow> bool \<times> MultiFile" where
  "MultiFile_excl os_open Path flags mf =
     MultiFile_open_impl os_open Path (FileRW_filter_excl flags) mf"

definition MultiFile_create ::
  "(string \<Rightarrow> int \<Rightarrow> int \<times> int) \<Rightarrow> string \<Rightarrow> int \<Rightarrow> MultiFile \<Rightarrow> bool \<times> MultiFile" where
  "MultiFile_create os_open Path flags mf =
     MultiFile_open_impl os_open Path (FileRW_filter_create flags) mf"

subsection \<open>Sequences of coordinator operations\<close>

text \<open>A call of the public interface together with what the operating system answered
  during it. The queries \<open>fail\<close>, \<open>good\<close>, \<open>is_open\<close>, \<open>is_closed\<close> and \<open>eflags\<close> change
  nothing and are not listed; \<open>size\<close>, the \<open>seek_*\<close> and \<open>bseek_*\<close> shorthands and the typed
  and endian-converting \<open>read\<close>/\<open>write\<close> templates are calls of \<open>length\<close>, \<open>seek\<close>, \<open>read\<close>
  and \<open>write\<close>.\<close>

datatype coord_op =
    Op_open "string \<Rightarrow> int \<Rightarrow> int \<times> int" string int
  | Op_excl "string \<Rightarrow> int \<Rightarrow> int \<times> int" string int
  | Op_create "string \<Rightarrow> int \<Rightarrow> int \<times> int" string int
  | Op_add "string \<Rightarrow> int \<Rightarrow> int \<times> int" string
  | Op_close
  | Op_bad
  | Op_eof "int \<Rightarrow> int"
  | Op_commit "int \<Rightarrow> int"
  | Op_length "int \<Rightarrow> int"
  | Op_seek "int \<Rightarrow> int \<Rightarrow> int \<Rightarrow> int" int int
  | Op_tell "int \<Rightarrow> int"
  | Op_chsize "int \<Rightarrow> int \<Rightarrow> int" int
  | Op_write "int \<Rightarrow> byte list \<Rightarrow> nat \<Rightarrow> int" "byte list" nat
  | Op_read "int \<Rightarrow> nat \<Rightarrow> int \<times> byte list" "byte list" nat

text \<open>The state of a thread that owns one coordinator: the coordinator and the
  thread-local verification buffer.\<close>

fun step :: "coord_op \<Rightarrow> MultiFile \<times> byte list \<Rightarrow> MultiFile \<times> byte list" where
  "step (Op_open os Path flags) (mf, buffer) = (snd (MultiFile_open os Path flags mf), buffer)"
| "step (Op_excl os Path flags) (mf, buffer) = (snd (MultiFile_excl os Path flags mf), buffer)"
| "step (Op_create os Path flags) (mf, buffer) = (snd (MultiFile_create os Path flags mf), buffer)"
| "step (Op_add os Path) (mf, buffer) = (snd (MultiFile_add os Path mf), buffer)"
| "step Op_close (mf, buffer) = (MultiFile_close mf, buffer)"
| "step Op_bad (mf, buffer) = (snd (MultiFile_bad mf), buffer)"
| "step (Op_eof os) (mf, buffer) = (snd (MultiFile_eof os mf), buffer)"
| "step (Op_commit os) (mf, buffer) = (snd (MultiFile_commit os mf), buffer)"
| "step (Op_length os) (mf, buffer) = (snd (MultiFile_length os mf), buffer)"
| "step (Op_seek os Pos Dir) (mf, buffer) = (snd (MultiFile_seek os Pos Dir mf), buffer)"
| "step (Op_tell os) (mf, buffer) = (snd (MultiFile_tell os mf), buffer)"
| "step (Op_chsize os NewSize) (mf, buffer) = (snd (MultiFile_chsize os NewSize mf), buffer)"
| "step (Op_write os Buf Size) (mf, buffer) = (snd (snd (MultiFile_write os Buf Size mf)), buffer)"
| "step (Op_read os Ptr Size) (mf, buffer) = snd (snd (MultiFile_read os Ptr Size (mf, buffer)))"

definition run :: "coord_op list \<Rightarrow> MultiFile \<times> byte list \<Rightarrow> MultiFile \<times> byte list" where
  "run ops st = fold step ops st"

definition initial :: "MultiFile \<times> byte list" where
  "initial = (MultiFile_init, [])"



text \<open>The array \<open>copies\<close> has five slots, and \<open>NumCopies\<close> indexes into it.\<close>

definition MultiFile_wf :: "MultiFile \<Rightarrow> bool" where
  "MultiFile_wf mf = (length (copies mf) = 5 \<and> 0 \<le> NumCopies mf \<and> NumCopies mf \<le> 5)"

text \<open>The participants of an operation: the primary, then the active secondaries in
  registration order.\<close>

definition participants :: "MultiFile \<Rightarrow> BasicFile list" where
  "participants mf = hdl mf # take (nat (NumCopies mf)) (copies mf)"

subsection \<open>Notions used to state what \<open>read\<close> does\<close>

text \<open>The system call of a single-file \<open>read\<close> of \<open>Size\<close> bytes on handle \<open>c\<close> did not
  return the full length (this is when \<open>BasicFile::read\<close> returns true).\<close>

definition read_short :: "(int \<Rightarrow> nat \<Rightarrow> int \<times> byte list) \<Rightarrow> nat \<Rightarrow> BasicFile \<Rightarrow> bool" where
  "read_short os_read Size c =
     (size_t_of_int (fst (os_read (f_handle c) (unsigned_of_size_t Size))) \<noteq> Size)"

text \<open>The content of the caller's buffer when the primary's read has returned, and of
  the verification buffer when the read of secondary \<open>i\<close> has returned (the buffer is
  resized once and then filled by one secondary after the other).\<close>

definition primary_bytes :: "(int \<Rightarrow> nat \<Rightarrow> int \<times> byte list) \<Rightarrow> nat \<Rightarrow> MultiFile \<Rightarrow> byte list \<Rightarrow> byte list" where
  "primary_bytes os_read Size mf Ptr =
     os_store (snd (os_read (f_handle (hdl mf)) (unsigned_of_size_t Size))) Ptr"

definition secondary_bytes ::
  "(int \<Rightarrow> nat \<Rightarrow> int \<times> byte list) \<Rightarrow> nat \<Rightarrow> MultiFile \<Rightarrow> byte list \<Rightarrow> nat \<Rightarrow> byte list" where
  "secondary_bytes os_read Size mf buffer i =
     fold (\<lambda>j B. os_store (snd (os_read (f_handle (copies mf ! j)) (unsigned_of_size_t Size))) B)
       [0..<Suc i] (vector_resize Size buffer)"

section \<open>The comparison utility\<close>

text \<open>
  \<open>compare\<close> reads two files through \<open>FileRO\<close> handles. What it returns is stated in
  terms of the files' contents, so here the operating system is a small file system: a path names the
  bytes of a file, or nothing when the file cannot be opened; an open file has a read
  position; \<open>read\<close> delivers the bytes from the position on, as many as asked for or as
  are left, and advances the position. The diagnostic line that the source prints for
  every mismatch is not modelled. (\<open>F1.read(V1.data(), L)\<close> selects the overload
  \<open>read(T* P, size_t N)\<close> with \<open>T = uint8_t\<close>, which calls \<open>read((void*)P, sizeof(T) * N)\<close>.)
\<close>

record os_file =
  content :: "byte list"
  pos :: nat

definition fs_open :: "(string \<Rightarrow> byte list option) \<Rightarrow> int \<Rightarrow> string \<Rightarrow> int \<Rightarrow> int \<times> int" where
  "fs_open fs fd Path Flags = (case fs Path of None \<Rightarrow> (-1, ENOENT) | Some c \<Rightarrow> (fd, 0))"

definition fs_file :: "(string \<Rightarrow> byte list option) \<Rightarrow> string \<Rightarrow> os_file" where
  "fs_file fs Path = \<lparr>content = (case fs Path of None \<Rightarrow> [] | Some c \<Rightarrow> c), pos = 0\<rparr>"

definition fs_size :: "os_file \<Rightarrow> int" where
  "fs_size file = int (length (content file))"

definition fs_read :: "os_file \<Rightarrow> nat \<Rightarrow> int \<times> byte list" where
  "fs_read file n = (let chunk = take n (drop (pos file) (content file)) in (int (length chunk), chunk))"

definition fs_advance :: "os_file \<Rightarrow> nat \<Rightarrow> os_file" where
  "fs_advance file n = file\<lparr>pos := pos file + length (take n (drop (pos file) (content file)))\<rparr>"

definition O_BINARY :: int where "O_BINARY = 0x8000"

text \<open>\<open>int(cnt)\<close>: an \<open>int64_t\<close> converted to the 32-bit \<open>int\<close> that \<open>compare\<close> returns.\<close>

definition int_of_int64 :: "int \<Rightarrow> int" where
  "int_of_int64 c = sint (word_of_int c :: 32 word)"

text \<open>The inner loop \<open>for (int64_t i = 0; i < L; i++) if (V1[i] != V2[i]) ++cnt;\<close>\<close>

definition compare_chunk :: "byte list \<Rightarrow> byte list \<Rightarrow> int \<Rightarrow> int \<Rightarrow> int" where
  "compare_chunk V1 V2 L cnt =
     fold (\<lambda>i cnt. if V1 ! i \<noteq> V2 ! i then cnt + 1 else cnt) [0..<nat L] cnt"

record compare_state =
  cF1 :: BasicFile
  cF2 :: BasicFile
  cV1 :: "byte list"
  cV2 :: "byte list"
  cfile1 :: os_file
  cfile2 :: os_file

text \<open>The two reads of one pass of \<open>while (L1)\<close>: \<open>None\<close> where the source returns \<open>-1\<close>.\<close>

definition compare_reads :: "int \<Rightarrow> compare_state \<Rightarrow> compare_state option" where
  "compare_reads L st =
     (let (e1, V1', F1') = BasicFile_read (\<lambda>fd n. fs_read (cfile1 st) n) (cV1 st) (size_t_of_int L) (cF1 st);
          file1' = fs_advance (cfile1 st) (unsigned_of_size_t (size_t_of_int L)) in
      if e1 then None
      else
        (let (e2, V2', F2') = BasicFile_read (\<lambda>fd n. fs_read (cfile2 st) n) (cV2 st) (size_t_of_int L) (cF2 st);
             file2' = fs_advance (cfile2 st) (unsigned_of_size_t (size_t_of_int L)) in
         if e2 then None
         else Some \<lparr>cF1 = F1', cF2 = F2', cV1 = V1', cV2 = V2', cfile1 = file1', cfile2 = file2'\<rparr>))"

function compare_loop :: "int \<Rightarrow> int \<Rightarrow> compare_state \<Rightarrow> int" where
  "compare_loop L1 cnt st =
     (if L1 = 0 then int_of_int64 cnt
      else
        (case compare_reads (if L1 > 4096 then 4096 else L1) st of
           None \<Rightarrow> -1
         | Some st' \<Rightarrow>
             compare_loop (L1 - (if L1 > 4096 then 4096 else L1))
               (compare_chunk (cV1 st') (cV2 st') (if L1 > 4096 then 4096 else L1) cnt) st'))"
  by pat_completeness auto
termination
  by (relation "measure (\<lambda>(L1, cnt, st). nat \<bar>L1\<bar>)") auto

declare compare_loop.simps [simp del]

definition compare :: "(string \<Rightarrow> byte list option) \<Rightarrow> string \<Rightarrow> string \<Rightarrow> int" where
  "compare fs P1 P2 =
     (let V1 = replicate 4096 0;
          V2 = replicate 4096 0;
          (ok1, F1) = FileRO_open (fs_open fs 3) P1 O_BINARY BasicFile_init in
      if \<not> ok1 then -1
      else
        (let (ok2, F2) = FileRO_open (fs_open fs 4) P2 O_BINARY BasicFile_init in
         if \<not> ok2 then -1
         else
           (let (L1, F1a) = BasicFile_length (\<lambda>fd. fs_size (fs_file fs P1)) F1;
                (L2, F2a) = BasicFile_length (\<lambda>fd. fs_size (fs_file fs P2)) F2 in
            if L1 < L2 then -1
            else if L1 > L2 then -1
            else compare_loop L1 0
                   \<lparr>cF1 = F1a, cF2 = F2a, cV1 = V1, cV2 = V2,
                    cfile1 = fs_file fs P1, cfile2 = fs_file fs P2\<rparr>)))"

text \<open>The number of positions at which two byte sequences differ.\<close>

definition mismatches :: "byte list \<Rightarrow> byte list \<Rightarrow> nat" where
  "mismatches xs ys = length (filter (\<lambda>(x, y). x \<noteq> y) (zip xs ys))"

section \<open>Scenarios\<close>

text \<open>Answers of the operating system used in the examples: an \<open>open\<close> that succeeds
  with a given descriptor, and one that fails with a given \<open>errno\<close>.\<close>

definition os_open_ok :: "int \<Rightarrow> string \<Rightarrow> int \<Rightarrow> int \<times> int" where
  "os_open_ok fd Path Flags = (fd, 0)"

definition os_open_err :: "int \<Rightarrow> string \<Rightarrow> int \<Rightarrow> int \<times> int" where
  "os_open_err err Path Flags = (-1, err)"

text \<open>A coordinator created on \<open>f.dat\<close> with two secondaries.\<close>

definition ex_two :: "MultiFile \<times> byte list" where
  "ex_two = run [Op_create (os_open_ok 3) ''f.dat'' 0, Op_add (os_open_ok 4) ''f.dat.bak1'',
                 Op_add (os_open_ok 5) ''f.dat.bak2''] initial"

text \<open>A coordinator on which \<open>add\<close> is called seven times after \<open>create\<close>.\<close>

definition ex_seven_adds :: "coord_op list" where
  "ex_seven_adds =
     [Op_create (os_open_ok 3) ''f.dat'' 0,
      Op_add (os_open_ok 4) ''b1'', Op_add (os_open_ok 5) ''b2'', Op_add (os_open_ok 6) ''b3'',
      Op_add (os_open_ok 7) ''b4'', Op_add (os_open_ok 8) ''b5'', Op_add (os_open_ok 9) ''b6'',
      Op_add (os_open_ok 10) ''b7'']"

text \<open>The primary cannot be opened (no such file), then a secondary is added.\<close>

definition ex_primary_missing :: "MultiFile \<times> byte list" where
  "ex_primary_missing =
     run [Op_open (os_open_err ENOENT) ''missing.dat'' 0, Op_add (os_open_ok 3) ''copy.dat'']
       initial"

text \<open>A \<open>commit\<close> during which the primary's \<open>os_commit\<close> fails and the secondaries'
  calls succeed.\<close>

definition os_commit_primary_fails :: "int \<Rightarrow> int" where
  "os_commit_primary_fails fd = (if fd = 3 then -1 else 0)"



text \<open>A coordinator with one secondary on which a seek to a negative offset has failed:
  every handle is still open and carries the \<open>seek\<close> and \<open>invalid\<close> flags. Then every
  handle is asked for three bytes and delivers the same three bytes.\<close>

definition ex_after_failed_seek :: "MultiFile \<times> byte list" where
  "ex_after_failed_seek =
     run [Op_create (os_open_ok 3) ''f.dat'' 0, Op_add (os_open_ok 4) ''f.dat.bak1'',
          Op_seek (\<lambda>fd Pos Dir. -1) (-5) 0] initial"

definition os_read_123 :: "int \<Rightarrow> nat \<Rightarrow> int \<times> byte list" where
  "os_read_123 fd n = (3, [1, 2, 3])"

text \<open>A read during which the second secondary (descriptor 5) delivers a different
  second byte.\<close>

definition os_read_diverged :: "int \<Rightarrow> nat \<Rightarrow> int \<times> byte list" where
  "os_read_diverged fd n = (if fd = 5 then (3, [1, 0, 3]) else (3, [1, 2, 3]))"

text \<open>A coordinator with one secondary on which \<open>open\<close> is called twice without a
  \<open>close\<close> in between: the first call finds the primary open, closes it and fails, the
  second opens \<open>g.dat\<close>.\<close>

definition ex_reopened_ops :: "coord_op list" where
  "ex_reopened_ops =
     [Op_create (os_open_ok 3) ''f.dat'' 0, Op_add (os_open_ok 4) ''f.dat.bak1'',
      Op_open (os_open_ok 5) ''g.dat'' 0, Op_open (os_open_ok 5) ''g.dat'' 0]"

definition ex_reopened :: "MultiFile \<times> byte list" where
  "ex_reopened = run ex_reopened_ops initial"

text \<open>A coordinator without secondaries.\<close>

definition ex_created :: "MultiFile \<times> byte list" where
  "ex_created = run [Op_create (os_open_ok 3) ''f.dat'' 0] initial"



text \<open>Two files of 4 GiB: \<open>a.bin\<close> holds only bytes 0, \<open>b.bin\<close> only bytes 1; no other
  file exists.\<close>

definition four_GiB :: nat where
  "four_GiB = 2 ^ 32"

definition ex_fs_big :: "string \<Rightarrow> byte list option" where
  "ex_fs_big Path =
     (if Path = ''a.bin'' then Some (replicate four_GiB 0)
      else if Path = ''b.bin'' then Some (replicate four_GiB 1)
      else None)"

section \<open>The loop over the secondaries\<close>

lemma for_copies_fold:
  assumes u: "\<And>c a. snd (body c a) = u c"
  shows "m \<le> length cs \<Longrightarrow>
    fold (\<lambda>i (acc, cs). let (acc', c) = body (cs ! i) acc in (acc', cs[i := c])) [0..<m] (a, cs)
    = (fold (\<lambda>i a. fst (body (cs ! i) a)) [0..<m] a, map u (take m cs) @ drop m cs)"
proof (induction m)
  case 0
  show ?case by simp
next
  case (Suc m)
  then have m: "m < length cs" by simp
  have nth: "(map u (take m cs) @ drop m cs) ! m = cs ! m"
    using m by (simp add: nth_append)
  have upd: "(map u (take m cs) @ drop m cs)[m := u (cs ! m)]
               = map u (take (Suc m) cs) @ drop (Suc m) cs"
    using m by (simp add: list_update_append take_Suc_conv_app_nth upd_conv_take_nth_drop)
  show ?case
    using Suc.IH m nth upd u [of "cs ! m"]
    by (simp add: case_prod_beta Let_def prod_eq_iff)
qed

text \<open>When the handle a body leaves behind does not depend on the loop's variables,
  the loop maps the first \<open>n\<close> handles and folds the variables over the handles as they
  were before the loop.\<close>

lemma for_copies_eq:
  assumes "\<And>c a. snd (body c a) = u c" and "nat n \<le> length cs"
  shows "for_copies body n (a, cs)
    = (fold (\<lambda>i a. fst (body (cs ! i) a)) [0..<nat n] a,
       map u (take (nat n) cs) @ drop (nat n) cs)"
  unfolding for_copies_def using for_copies_fold [OF assms] .

lemma for_copies_length: "length (snd (for_copies body n (a, cs))) = length cs"
proof -
  have "length (snd (fold (\<lambda>i (acc, cs). let (acc', c) = body (cs ! i) acc in (acc', cs[i := c]))
          [0..<m] (a, cs))) = length cs" for m
    by (induction m) (simp_all add: case_prod_beta Let_def)
  then show ?thesis by (simp add: for_copies_def)
qed

section \<open>The coordinator's invariant\<close>

lemma open_impl_NumCopies: "NumCopies (snd (MultiFile_open_impl os P fl mf)) = 0"
  by (simp add: MultiFile_open_impl_def case_prod_beta Let_def)

lemma open_impl_copies: "copies (snd (MultiFile_open_impl os P fl mf)) = copies mf"
  by (simp add: MultiFile_open_impl_def case_prod_beta Let_def)

lemma add_NumCopies:
  "NumCopies (snd (MultiFile_add os P mf))
     = (if fst (MultiFile_add os P mf) then NumCopies mf + 1 else NumCopies mf)"
  by (simp add: MultiFile_add_def case_prod_beta Let_def)

lemma add_ok_below: "fst (MultiFile_add os P mf) \<Longrightarrow> 0 \<le> NumCopies mf \<and> NumCopies mf < 5"
  by (auto simp add: MultiFile_add_def case_prod_beta Let_def split: if_splits)

lemma add_length: "length (copies (snd (MultiFile_add os P mf))) = length (copies mf)"
  by (simp add: MultiFile_add_def case_prod_beta Let_def)

lemmas MultiFile_op_defs =
  MultiFile_open_def MultiFile_excl_def MultiFile_create_def MultiFile_close_def
  MultiFile_bad_def MultiFile_eof_def MultiFile_commit_def MultiFile_length_def
  MultiFile_seek_def MultiFile_tell_def MultiFile_chsize_def MultiFile_write_def
  MultiFile_read_def

lemma step_NumCopies:
  "NumCopies (fst (step op st)) =
     (case op of
        Op_open os P fl \<Rightarrow> 0
      | Op_excl os P fl \<Rightarrow> 0
      | Op_create os P fl \<Rightarrow> 0
      | Op_add os P \<Rightarrow> (if fst (MultiFile_add os P (fst st)) then NumCopies (fst st) + 1
                         else NumCopies (fst st))
      | _ \<Rightarrow> NumCopies (fst st))"
  by (cases op; cases st)
     (simp_all add: open_impl_NumCopies add_NumCopies MultiFile_op_defs case_prod_beta Let_def)

lemma step_length:
  "length (copies (fst (step op st))) = length (copies (fst st))"
  by (cases op; cases st)
     (simp_all add: open_impl_copies add_length for_copies_length MultiFile_op_defs
        case_prod_beta Let_def)

lemma step_range:
  "0 \<le> NumCopies (fst st) \<and> NumCopies (fst st) \<le> 5
     \<Longrightarrow> 0 \<le> NumCopies (fst (step op st)) \<and> NumCopies (fst (step op st)) \<le> 5"
  unfolding step_NumCopies by (auto split: coord_op.splits dest: add_ok_below)

lemma step_wf: "MultiFile_wf (fst st) \<Longrightarrow> MultiFile_wf (fst (step op st))"
  unfolding MultiFile_wf_def step_length using step_range [of st op] by simp


lemma run_wf: "MultiFile_wf (fst st) \<Longrightarrow> MultiFile_wf (fst (run ops st))"
  by (induction ops rule: rev_induct) (simp_all add: run_def step_wf)

lemma init_wf: "MultiFile_wf MultiFile_init"
  by (simp add: MultiFile_wf_def MultiFile_init_def)

lemma reachable_wf: "MultiFile_wf (fst (run ops initial))"
  using run_wf [of initial] init_wf by (simp add: initial_def)

text \<open>
  Claim C7. The secondary count stays between 0 and 5 in every state reached from the
  constructed coordinator by any sequence of operations: it is 0 after construction,
  \<open>open\<close>, \<open>create\<close> and \<open>excl\<close> set it to 0, \<open>add\<close> adds one exactly when it succeeds and
  succeeds only while the count is below 5, and no operation takes a count in the range
  out of it.
\<close>

theorem C7_secondary_count_in_range:
  "NumCopies MultiFile_init = 0
   \<and> NumCopies (snd (MultiFile_open os P fl mf)) = 0
   \<and> NumCopies (snd (MultiFile_create os P fl mf)) = 0
   \<and> NumCopies (snd (MultiFile_excl os P fl mf)) = 0
   \<and> NumCopies (snd (MultiFile_add os P mf))
        = (if fst (MultiFile_add os P mf) then NumCopies mf + 1 else NumCopies mf)
   \<and> (fst (MultiFile_add os P mf) \<longrightarrow> 0 \<le> NumCopies mf \<and> NumCopies mf < 5)
   \<and> (0 \<le> NumCopies mf \<and> NumCopies mf \<le> 5 \<longrightarrow>
        0 \<le> NumCopies (fst (step op (mf, buffer)))
        \<and> NumCopies (fst (step op (mf, buffer))) \<le> 5)
   \<and> 0 \<le> NumCopies (fst (run ops initial))
   \<and> NumCopies (fst (run ops initial)) \<le> 5"
proof -
  have "MultiFile_wf (fst (run ops initial))" by (rule reachable_wf)
  then have "0 \<le> NumCopies (fst (run ops initial)) \<and> NumCopies (fst (run ops initial)) \<le> 5"
    by (simp add: MultiFile_wf_def)
  moreover have "0 \<le> NumCopies mf \<and> NumCopies mf \<le> 5 \<longrightarrow>
        0 \<le> NumCopies (fst (step op (mf, buffer)))
        \<and> NumCopies (fst (step op (mf, buffer))) \<le> 5"
    using step_range [of "(mf, buffer)" op] by simp
  moreover have "fst (MultiFile_add os P mf) \<longrightarrow> 0 \<le> NumCopies mf \<and> NumCopies mf < 5"
    using add_ok_below by blast
  moreover have "NumCopies MultiFile_init = 0"
    by (simp add: MultiFile_init_def)
  ultimately show ?thesis
    by (simp add: MultiFile_open_def MultiFile_create_def MultiFile_excl_def
          open_impl_NumCopies add_NumCopies)
qed

text \<open>After \<open>create\<close> and seven calls of \<open>add\<close> that the operating system would all
  serve, five secondaries are registered: the sixth and the seventh call were refused.\<close>

theorem C7_secondary_count_in_range_witness:
  "NumCopies (fst (run ex_seven_adds initial)) = 5
   \<and> 0 \<le> NumCopies (fst (run ex_seven_adds initial))
   \<and> NumCopies (fst (run ex_seven_adds initial)) \<le> 5
   \<and> fst (MultiFile_add (os_open_ok 6) ''f.dat.bak3'' (fst ex_two))
   \<and> NumCopies (fst ex_two) < 5
   \<and> NumCopies (snd (MultiFile_add (os_open_ok 6) ''f.dat.bak3'' (fst ex_two))) = 3"
proof -
  have n: "NumCopies (fst (run ex_seven_adds initial)) = 5"
    by code_simp
  have a: "fst (MultiFile_add (os_open_ok 6) ''f.dat.bak3'' (fst ex_two))"
    by code_simp
  have m: "NumCopies (fst ex_two) = 2"
    by code_simp
  show ?thesis
    using n a m
      C7_secondary_count_in_range [of "os_open_ok 6" "''f.dat.bak3''" _ "fst ex_two" _ _
        ex_seven_adds]
    by simp
qed

section \<open>Positions and sizes\<close>

lemma fold_agree:
  "fold (\<lambda>i (L::int). if g i \<noteq> L then -1 else L) [0..<m] v
     = (if \<forall>i<m. g i = v then v else -1)"
proof (induction m)
  case 0 show ?case by simp
next
  case (Suc m)
  show ?case using Suc.IH by (auto simp: less_Suc_eq)
qed

lemma fold_agree':
  "fold (\<lambda>i (P::int). if P \<noteq> g i then -1 else P) [0..<m] v
     = (if \<forall>i<m. g i = v then v else -1)"
proof -
  have "(\<lambda>i (P::int). if P \<noteq> g i then -1 else P) = (\<lambda>i L. if g i \<noteq> L then -1 else L)"
    by (auto simp: fun_eq_iff)
  then show ?thesis by (simp add: fold_agree)
qed

lemma wf_nat_le: "MultiFile_wf mf \<Longrightarrow> nat (NumCopies mf) \<le> length (copies mf)"
  by (auto simp: MultiFile_wf_def)

lemma for_copies_fst:
  assumes "\<And>c a. snd (body c a) = u c" and "nat n \<le> length cs"
  shows "fst (for_copies body n (a, cs)) = fold (\<lambda>i a. fst (body (cs ! i) a)) [0..<nat n] a"
  by (simp add: for_copies_eq [OF assms])

lemma BasicFile_seek_fst: "fst (BasicFile_seek os Pos Dir c) = os (f_handle c) Pos Dir"
  by (simp add: BasicFile_seek_def Let_def)

lemma BasicFile_tell_fst: "fst (BasicFile_tell os c) = os (f_handle c)"
  by (simp add: BasicFile_tell_def Let_def)

lemma BasicFile_length_fst: "fst (BasicFile_length os c) = os (f_handle c)"
  by (simp add: BasicFile_length_def Let_def)

lemma MultiFile_seek_fst:
  assumes "MultiFile_wf mf"
  shows "fst (MultiFile_seek os Pos Dir mf) =
     (if \<forall>i<nat (NumCopies mf). os (f_handle (copies mf ! i)) Pos Dir = os (f_handle (hdl mf)) Pos Dir
      then os (f_handle (hdl mf)) Pos Dir else -1)"
  unfolding MultiFile_seek_def case_prod_beta Let_def fst_conv
  by (subst for_copies_fst [where u = "\<lambda>c. snd (BasicFile_seek os Pos Dir c)"])
     (simp_all add: wf_nat_le [OF assms] BasicFile_seek_fst fold_agree')

lemma MultiFile_tell_fst:
  assumes "MultiFile_wf mf"
  shows "fst (MultiFile_tell os mf) =
     (if \<forall>i<nat (NumCopies mf). os (f_handle (copies mf ! i)) = os (f_handle (hdl mf))
      then os (f_handle (hdl mf)) else -1)"
  unfolding MultiFile_tell_def case_prod_beta Let_def fst_conv
  by (subst for_copies_fst [where u = "\<lambda>c. snd (BasicFile_tell os c)"])
     (simp_all add: wf_nat_le [OF assms] BasicFile_tell_fst fold_agree')

lemma MultiFile_length_fst:
  assumes "MultiFile_wf mf"
  shows "fst (MultiFile_length os mf) =
     (if \<forall>i<nat (NumCopies mf). os (f_handle (copies mf ! i)) = os (f_handle (hdl mf))
      then os (f_handle (hdl mf)) else -1)"
  unfolding MultiFile_length_def case_prod_beta Let_def fst_conv
  by (subst for_copies_fst [where u = "\<lambda>c. snd (BasicFile_length os c)"])
     (simp_all add: wf_nat_le [OF assms] BasicFile_length_fst fold_agree)

text \<open>
  Claim C4. On a coordinator with five slots and a count between 0 and 5, each of
  \<open>seek(Pos, Dir)\<close>, \<open>tell()\<close> and \<open>length()\<close> returns the value the primary's call
  reported when the call of every active secondary reported the same value, and \<open>-1\<close>
  when the value of some active secondary differs from it. (A single-file call reports
  what the system call returned.)
\<close>

theorem C4_seek_tell_length_agree:
  assumes "MultiFile_wf mf"
  shows "fst (MultiFile_seek os_seek Pos Dir mf) =
           (if \<forall>i<nat (NumCopies mf).
                 os_seek (f_handle (copies mf ! i)) Pos Dir = os_seek (f_handle (hdl mf)) Pos Dir
            then os_seek (f_handle (hdl mf)) Pos Dir else -1)
       \<and> fst (MultiFile_tell os_tell mf) =
           (if \<forall>i<nat (NumCopies mf). os_tell (f_handle (copies mf ! i)) = os_tell (f_handle (hdl mf))
            then os_tell (f_handle (hdl mf)) else -1)
       \<and> fst (MultiFile_length os_size mf) =
           (if \<forall>i<nat (NumCopies mf). os_size (f_handle (copies mf ! i)) = os_size (f_handle (hdl mf))
            then os_size (f_handle (hdl mf)) else -1)"
  using MultiFile_seek_fst [OF assms] MultiFile_tell_fst [OF assms] MultiFile_length_fst [OF assms]
  by simp

lemma ex_two_state:
  "fst ex_two = \<lparr>hdl = \<lparr>f_handle = 3, e_flags = 0\<rparr>,
        copies =
          [\<lparr>f_handle = 4, e_flags = 0\<rparr>, \<lparr>f_handle = 5, e_flags = 0\<rparr>,
           \<lparr>f_handle = - 1, e_flags = 1\<rparr>, \<lparr>f_handle = - 1, e_flags = 1\<rparr>,
           \<lparr>f_handle = - 1, e_flags = 1\<rparr>],
        NumCopies = 2, OpenFlags = 258\<rparr>"
  by code_simp

lemma ex_two_wf: "MultiFile_wf (fst ex_two)"
  unfolding ex_two_def by (rule reachable_wf)

lemma all_less_two: "(\<forall>i<(2::nat). P i) = (P 0 \<and> P (Suc 0))"
  by (auto simp: less_2_cases_iff)

text \<open>With two secondaries: a seek that every handle answers with the requested
  offset returns it; a \<open>tell\<close> where the second secondary stands elsewhere, and a
  \<open>length\<close> where the primary is shorter than the copies, return \<open>-1\<close>.\<close>

theorem C4_seek_tell_length_agree_witness:
  "MultiFile_wf (fst ex_two)
   \<and> fst (MultiFile_seek (\<lambda>fd Pos Dir. Pos) 100 0 (fst ex_two)) = 100
   \<and> fst (MultiFile_tell (\<lambda>fd. if fd = 5 then 60 else 100) (fst ex_two)) = -1
   \<and> fst (MultiFile_length (\<lambda>fd. if fd = 3 then 7 else 8) (fst ex_two)) = -1"
  using ex_two_wf C4_seek_tell_length_agree [OF ex_two_wf, of "\<lambda>fd Pos Dir. Pos" 100 0
      "\<lambda>fd. if fd = 5 then 60 else 100" "\<lambda>fd. if fd = 3 then 7 else 8"]
  unfolding ex_two_state
  by (simp add: all_less_two)

section \<open>State queries\<close>

text \<open>
  Claim C10. There is a reachable state in which \<open>is_open()\<close> and \<open>is_closed()\<close> are
  both false: after an \<open>open\<close> whose system call fails, the flags are recorded and a
  following \<open>add\<close> succeeds; the primary is closed, the one registered secondary is
  open. So \<open>is_closed()\<close> is not the negation of \<open>is_open()\<close>.
\<close>

theorem C10_neither_open_nor_closed:
  "\<not> MultiFile_is_open (fst ex_primary_missing)
   \<and> \<not> MultiFile_is_closed (fst ex_primary_missing)
   \<and> \<not> BasicFile_is_open (hdl (fst ex_primary_missing))
   \<and> NumCopies (fst ex_primary_missing) = 1
   \<and> BasicFile_is_open (copies (fst ex_primary_missing) ! 0)
   \<and> OpenFlags (fst ex_primary_missing) = FileRW_filter_open 0"
  by code_simp

section \<open>Commit\<close>

lemma fold_conj: "fold (\<lambda>i B. B \<and> g i) [0..<m] b = (b \<and> (\<forall>i<m. g i))"
  by (induction m) (auto simp: less_Suc_eq)

text \<open>What \<open>commit\<close> computes: the conjunction of the participants' error results.\<close>

lemma MultiFile_commit_fst:
  assumes "MultiFile_wf mf"
  shows "fst (MultiFile_commit os mf) =
     (fst (BasicFile_commit os (hdl mf))
      \<and> (\<forall>i<nat (NumCopies mf). fst (BasicFile_commit os (copies mf ! i))))"
  unfolding MultiFile_commit_def case_prod_beta Let_def fst_conv
  by (subst for_copies_fst [where u = "\<lambda>c. snd (BasicFile_commit os c)"])
     (simp_all add: wf_nat_le [OF assms] fold_conj)

text \<open>
  Claim C3. \<open>commit()\<close> is to report failure (true) when the commit of the primary or
  of any active secondary fails. The code accumulates the per-handle error results with
  \<open>&=\<close>: on the coordinator with two secondaries, the primary's commit fails (its
  single-file \<open>commit\<close> returns true), the two secondaries' commits succeed, and the
  coordinator's \<open>commit\<close> returns false, that is, success.
\<close>

theorem C3_commit_reports_success_on_primary_failure:
  "fst (BasicFile_commit os_commit_primary_fails (hdl (fst ex_two))) = True
   \<and> fst (BasicFile_commit os_commit_primary_fails (copies (fst ex_two) ! 0)) = False
   \<and> fst (BasicFile_commit os_commit_primary_fails (copies (fst ex_two) ! 1)) = False
   \<and> fst (MultiFile_commit os_commit_primary_fails (fst ex_two)) = False"
  by code_simp

section \<open>Write\<close>



lemma ex_nth_take:
  assumes m: "m \<le> length xs"
  shows "(\<exists>i<m. P (xs ! i)) = (\<exists>x\<in>set (take m xs). P x)"
proof
  assume "\<exists>i<m. P (xs ! i)"
  then obtain i where i: "i < m" "P (xs ! i)" by blast
  then have "take m xs ! i \<in> set (take m xs)" using m by (intro nth_mem) simp
  then show "\<exists>x\<in>set (take m xs). P x" using i by auto
next
  assume "\<exists>x\<in>set (take m xs). P x"
  then obtain i where "i < length (take m xs)" "P (take m xs ! i)"
    by (auto simp: in_set_conv_nth)
  then show "\<exists>i<m. P (xs ! i)" using m by auto
qed

lemma BasicFile_write_fst:
  "fst (BasicFile_write os Buf Size c)
     = (size_t_of_int (os (f_handle c) Buf (unsigned_of_size_t Size)) \<noteq> Size)"
  by (simp add: BasicFile_write_def Let_def)






text \<open>Over the whole range of an \<open>int\<close> result and for every size below
  \<open>2 ^ 64 - 2 ^ 31\<close>, the test \<open>res == Size\<close> of the single-file \<open>write\<close> is the test
  that the full length was written.\<close>

lemma size_t_test_is_length_test:
  assumes "- (2 ^ 31) \<le> res" and "res < 2 ^ 31" and "Size < 2 ^ 64 - 2 ^ 31"
  shows "(size_t_of_int res \<noteq> Size) = (res \<noteq> int Size)"
proof (cases "0 \<le> res")
  case True
  then have "res mod 2 ^ 64 = res" using assms(2) by simp
  then show ?thesis using True by (auto simp: size_t_of_int_def)
next
  case False
  then have "(res + 2 ^ 64) mod 2 ^ 64 = res + 2 ^ 64"
    using assms(1) by (intro mod_pos_pos_trivial) simp_all
  then have "res mod 2 ^ 64 = res + 2 ^ 64"
    by simp
  then have "size_t_of_int res = nat (res + 2 ^ 64)" by (simp add: size_t_of_int_def)
  then show ?thesis using False assms(1,3) by auto
qed

lemma BasicFile_write_fails_iff_short:
  assumes "- (2 ^ 31) \<le> os (f_handle c) Buf (unsigned_of_size_t Size)"
    and "os (f_handle c) Buf (unsigned_of_size_t Size) < 2 ^ 31"
    and "Size < 2 ^ 64 - 2 ^ 31"
  shows "fst (BasicFile_write os Buf Size c)
           = (os (f_handle c) Buf (unsigned_of_size_t Size) \<noteq> int Size)"
  unfolding BasicFile_write_fst by (rule size_t_test_is_length_test [OF assms])


section \<open>Read\<close>

lemma BasicFile_read_fst:
  "fst (BasicFile_read os B Size c) = read_short os Size c"
  by (simp add: BasicFile_read_def read_short_def Let_def case_prod_beta)

lemma BasicFile_read_buf:
  "fst (snd (BasicFile_read os B Size c))
     = os_store (snd (os (f_handle c) (unsigned_of_size_t Size))) B"
  by (simp add: BasicFile_read_def Let_def case_prod_beta)

lemma BasicFile_read_hdl:
  "snd (snd (BasicFile_read os B Size c)) = snd (snd (BasicFile_read os [] Size c))"
  by (simp add: BasicFile_read_def Let_def case_prod_beta)

lemma or_EF_read_nonzero: "(e::error_flags) OR EF_read \<noteq> 0" "(e OR EF_read) OR EF_invalid \<noteq> 0"
  by (simp_all add: EF_read_def EF_invalid_def or_eq_0_iff)

text \<open>A failed read sets the \<open>read\<close> flag and a successful one leaves the flags alone, so
  \<open>fail()\<close> after the read is: flags were set before, or the read failed.\<close>

lemma BasicFile_read_fail:
  "BasicFile_fail (snd (snd (BasicFile_read os B Size c)))
     = (BasicFile_fail c \<or> read_short os Size c)"
  by (simp add: BasicFile_read_def read_short_def Let_def case_prod_beta BasicFile_fail_def
        ef_fail_def or_EF_read_nonzero)

lemma fold_read:
  "fold (\<lambda>i a. (d (s i (snd a)) \<or> g i \<or> fst a, s i (snd a))) [0..<m] (E0, B0)
     = ((\<exists>i<m. g i \<or> d (fold s [0..<Suc i] B0)) \<or> E0, fold s [0..<m] B0)"
  by (induction m) (auto simp: less_Suc_eq)

lemma read_loop:
  assumes le: "nat n \<le> length cs"
  shows "fst (for_copies
           (\<lambda>c a. ((memcmp_differs P (fst (snd (BasicFile_read os (snd a) Size c))) Size
                      \<or> fst (BasicFile_read os (snd a) Size c)
                      \<or> BasicFile_fail (snd (snd (BasicFile_read os (snd a) Size c)))
                      \<or> fst a,
                     fst (snd (BasicFile_read os (snd a) Size c))),
                    snd (snd (BasicFile_read os (snd a) Size c))))
           n ((E0, B0), cs))
     = ((\<exists>i<nat n. (read_short os Size (cs ! i) \<or> BasicFile_fail (cs ! i))
                     \<or> memcmp_differs P
                          (fold (\<lambda>j B. os_store (snd (os (f_handle (cs ! j)) (unsigned_of_size_t Size))) B)
                             [0..<Suc i] B0) Size) \<or> E0,
        fold (\<lambda>j B. os_store (snd (os (f_handle (cs ! j)) (unsigned_of_size_t Size))) B)
          [0..<nat n] B0)"
proof -
  have "fst (for_copies
           (\<lambda>c a. ((memcmp_differs P (fst (snd (BasicFile_read os (snd a) Size c))) Size
                      \<or> fst (BasicFile_read os (snd a) Size c)
                      \<or> BasicFile_fail (snd (snd (BasicFile_read os (snd a) Size c)))
                      \<or> fst a,
                     fst (snd (BasicFile_read os (snd a) Size c))),
                    snd (snd (BasicFile_read os (snd a) Size c))))
           n ((E0, B0), cs))
     = fold (\<lambda>i a. ((\<lambda>B. memcmp_differs P B Size)
                       ((\<lambda>j B. os_store (snd (os (f_handle (cs ! j)) (unsigned_of_size_t Size))) B) i (snd a))
                     \<or> (read_short os Size (cs ! i) \<or> BasicFile_fail (cs ! i)) \<or> fst a,
                     (\<lambda>j B. os_store (snd (os (f_handle (cs ! j)) (unsigned_of_size_t Size))) B) i (snd a)))
         [0..<nat n] (E0, B0)"
    apply (subst for_copies_fst [where u = "\<lambda>c. snd (snd (BasicFile_read os [] Size c))"])
      apply (subst snd_conv, rule BasicFile_read_hdl)
     apply (rule le)
    apply (simp add: BasicFile_read_fail BasicFile_read_buf BasicFile_read_fst)
    apply (rule arg_cong [where f = "\<lambda>f. fold f [0..<nat n] (E0, B0)"])
    apply (auto simp: fun_eq_iff)
    done
  also have "\<dots> = ((\<exists>i<nat n. (read_short os Size (cs ! i) \<or> BasicFile_fail (cs ! i))
                     \<or> memcmp_differs P
                          (fold (\<lambda>j B. os_store (snd (os (f_handle (cs ! j)) (unsigned_of_size_t Size))) B)
                             [0..<Suc i] B0) Size) \<or> E0,
        fold (\<lambda>j B. os_store (snd (os (f_handle (cs ! j)) (unsigned_of_size_t Size))) B)
          [0..<nat n] B0)"
    by (rule fold_read)
  finally show ?thesis .
qed

lemma MultiFile_read_error:
  assumes "MultiFile_wf mf"
  shows "fst (MultiFile_read os Ptr Size (mf, buffer)) =
      ((\<exists>c\<in>set (participants mf). read_short os Size c \<or> BasicFile_fail c)
       \<or> (\<exists>i<nat (NumCopies mf).
             memcmp_differs (primary_bytes os Size mf Ptr) (secondary_bytes os Size mf buffer i) Size))"
proof -
  have le: "nat (NumCopies mf) \<le> length (copies mf)" by (rule wf_nat_le [OF assms])
  have ex: "(\<exists>i<nat (NumCopies mf). read_short os Size (copies mf ! i) \<or> BasicFile_fail (copies mf ! i))
           = (\<exists>c\<in>set (take (nat (NumCopies mf)) (copies mf)). read_short os Size c \<or> BasicFile_fail c)"
    by (rule ex_nth_take [OF le, of "\<lambda>c. read_short os Size c \<or> BasicFile_fail c"])
  show ?thesis
    unfolding MultiFile_read_def Let_def case_prod_beta fst_conv snd_conv
    apply (simp add: read_loop [OF le])
    apply (simp add: BasicFile_read_fail BasicFile_read_buf BasicFile_read_fst participants_def
        primary_bytes_def secondary_bytes_def ex [symmetric])
    apply blast
    done
qed

lemma MultiFile_read_buffer:
  "fst (snd (MultiFile_read os Ptr Size (mf, buffer))) = primary_bytes os Size mf Ptr"
  by (simp add: MultiFile_read_def Let_def case_prod_beta BasicFile_read_buf primary_bytes_def)

lemma ex_two_pair:
  "ex_two = (\<lparr>hdl = \<lparr>f_handle = 3, e_flags = 0\<rparr>,
        copies =
          [\<lparr>f_handle = 4, e_flags = 0\<rparr>, \<lparr>f_handle = 5, e_flags = 0\<rparr>,
           \<lparr>f_handle = - 1, e_flags = 1\<rparr>, \<lparr>f_handle = - 1, e_flags = 1\<rparr>,
           \<lparr>f_handle = - 1, e_flags = 1\<rparr>],
        NumCopies = 2, OpenFlags = 258\<rparr>, [])"
  by code_simp

lemma ex_after_failed_seek_state:
  "ex_after_failed_seek =
     (\<lparr>hdl = \<lparr>f_handle = 3, e_flags = 0x280\<rparr>,
       copies = [\<lparr>f_handle = 4, e_flags = 0x280\<rparr>, \<lparr>f_handle = - 1, e_flags = 1\<rparr>,
                 \<lparr>f_handle = - 1, e_flags = 1\<rparr>, \<lparr>f_handle = - 1, e_flags = 1\<rparr>,
                 \<lparr>f_handle = - 1, e_flags = 1\<rparr>],
       NumCopies = 1, OpenFlags = 258\<rparr>, [])"
  by code_simp

lemma ex_after_failed_seek_wf: "MultiFile_wf (fst ex_after_failed_seek)"
  unfolding ex_after_failed_seek_def by (rule reachable_wf)

lemma ex_less_two: "(\<exists>i<(2::nat). P i) = (P 0 \<or> P (Suc 0))"
  by (auto simp: less_2_cases_iff)

lemmas read_eval_defs =
  MultiFile_read_def for_copies_def BasicFile_read_def BasicFile_fail_def ef_fail_def
  vector_resize_def memcmp_differs_def os_store_def unsigned_of_size_t_def size_t_of_int_def
  primary_bytes_def secondary_bytes_def read_short_def participants_def
  os_read_123_def os_read_diverged_def EF_read_def EF_invalid_def

text \<open>
  Claim C1, first part: the caller's buffer holds what the primary's read left in it,
  whatever the secondaries deliver and whatever the result. Second part, as the code
  has it: on a coordinator with five slots and a count between 0 and 5, \<open>read\<close> reports
  failure exactly when the read of the primary or of an active secondary does not
  return the full length, or a participant carries an error flag, or the first \<open>Size\<close>
  bytes of the verification buffer after some secondary's read differ from the first
  \<open>Size\<close> bytes of the caller's buffer. So it reports success when every read succeeds,
  every secondary's bytes equal the primary's and, in addition, no participant carries
  an error flag.
\<close>

theorem C1_read_yields_primary_bytes_and_verifies:
  assumes "MultiFile_wf mf"
  shows "fst (snd (MultiFile_read os_read Ptr Size (mf, buffer))) = primary_bytes os_read Size mf Ptr
       \<and> fst (MultiFile_read os_read Ptr Size (mf, buffer)) =
           ((\<exists>c\<in>set (participants mf). read_short os_read Size c \<or> BasicFile_fail c)
            \<or> (\<exists>i<nat (NumCopies mf).
                  memcmp_differs (primary_bytes os_read Size mf Ptr)
                    (secondary_bytes os_read Size mf buffer i) Size))
       \<and> fst (BasicFile_read os_read B Size c) = read_short os_read Size c"
  using MultiFile_read_buffer MultiFile_read_error [OF assms] BasicFile_read_fst
  by simp

text \<open>With two secondaries of which the second delivers a different byte, the failure
  is reported and the caller holds the primary's bytes; when all three deliver the same
  bytes, success is reported.\<close>

theorem C1_read_yields_primary_bytes_and_verifies_witness:
  "MultiFile_wf (fst ex_two)
   \<and> fst (snd (MultiFile_read os_read_diverged [0, 0, 0] 3 ex_two)) = [1, 2, 3]
   \<and> fst (MultiFile_read os_read_diverged [0, 0, 0] 3 ex_two) = True
   \<and> fst (MultiFile_read os_read_123 [0, 0, 0] 3 ex_two) = False"
  using ex_two_wf
    C1_read_yields_primary_bytes_and_verifies
      [OF ex_two_wf, of os_read_diverged "[0, 0, 0]" 3 "snd ex_two" "[]" "hdl (fst ex_two)"]
    C1_read_yields_primary_bytes_and_verifies
      [OF ex_two_wf, of os_read_123 "[0, 0, 0]" 3 "snd ex_two" "[]" "hdl (fst ex_two)"]
  unfolding ex_two_pair
  by (simp add: read_eval_defs ex_less_two)

text \<open>
  Claim C1 as stated fails: on the coordinator whose handles carry the flags of a failed
  seek, the primary's read and the secondary's read both return the full three bytes,
  the secondary's bytes equal the primary's, and \<open>read\<close> reports failure.
\<close>

theorem C1_success_needs_clean_flags_counterexample:
  "NumCopies (fst ex_after_failed_seek) = 1
   \<and> fst (BasicFile_read os_read_123 [0, 0, 0] 3 (hdl (fst ex_after_failed_seek))) = False
   \<and> fst (BasicFile_read os_read_123 [0, 0, 0] 3 (copies (fst ex_after_failed_seek) ! 0)) = False
   \<and> primary_bytes os_read_123 3 (fst ex_after_failed_seek) [0, 0, 0] = [1, 2, 3]
   \<and> secondary_bytes os_read_123 3 (fst ex_after_failed_seek) (snd ex_after_failed_seek) 0
        = [1, 2, 3]
   \<and> fst (MultiFile_read os_read_123 [0, 0, 0] 3 ex_after_failed_seek) = True"
  unfolding ex_after_failed_seek_state
  by (simp add: read_eval_defs)

text \<open>
  Claim C9. \<open>read\<close> reports failure whenever the primary or an active secondary carries
  an error flag from an earlier operation (\<open>fail()\<close> holds of it, that is, its flag word
  is not zero), whatever the reads deliver; so a successful result requires every
  participant to be free of error flags.
\<close>

theorem C9_read_fails_on_sticky_flags:
  assumes "MultiFile_wf mf" and "\<exists>c\<in>set (participants mf). BasicFile_fail c"
  shows "fst (MultiFile_read os_read Ptr Size (mf, buffer)) = True
       \<and> BasicFile_fail c' = (e_flags c' \<noteq> 0)"
  using assms(2) MultiFile_read_error [OF assms(1), of os_read Ptr Size buffer]
  by (auto simp: BasicFile_fail_def ef_fail_def)

text \<open>After the failed seek every read succeeds and the copies' bytes match, and
  \<open>read\<close> still reports failure.\<close>

theorem C9_read_fails_on_sticky_flags_witness:
  "MultiFile_wf (fst ex_after_failed_seek)
   \<and> (\<exists>c\<in>set (participants (fst ex_after_failed_seek)). BasicFile_fail c)
   \<and> \<not> read_short os_read_123 3 (hdl (fst ex_after_failed_seek))
   \<and> \<not> read_short os_read_123 3 (copies (fst ex_after_failed_seek) ! 0)
   \<and> fst (MultiFile_read os_read_123 [0, 0, 0] 3
            (fst ex_after_failed_seek, snd ex_after_failed_seek)) = True"
proof -
  have flags: "\<exists>c\<in>set (participants (fst ex_after_failed_seek)). BasicFile_fail c"
    unfolding ex_after_failed_seek_state
    by (simp add: participants_def BasicFile_fail_def ef_fail_def)
  have ok: "\<not> read_short os_read_123 3 (hdl (fst ex_after_failed_seek))
            \<and> \<not> read_short os_read_123 3 (copies (fst ex_after_failed_seek) ! 0)"
    unfolding ex_after_failed_seek_state
    by (simp add: read_short_def os_read_123_def size_t_of_int_def)
  show ?thesis
    using ex_after_failed_seek_wf flags ok
      C9_read_fails_on_sticky_flags [OF ex_after_failed_seek_wf flags, of os_read_123
        "[0, 0, 0]" 3 "snd ex_after_failed_seek"]
    by simp
qed

section \<open>Adding a secondary\<close>

lemma add_fail_five:
  "NumCopies mf < 0 \<or> 5 \<le> NumCopies mf \<Longrightarrow> MultiFile_add os P mf = (False, mf)"
  by (auto simp: MultiFile_add_def)

lemma add_result:
  "0 \<le> NumCopies mf \<Longrightarrow> NumCopies mf < 5 \<Longrightarrow>
     fst (MultiFile_add os P mf)
       = fst (FileRW_open_impl os P (OpenFlags mf) (copies mf ! nat (NumCopies mf)))"
  by (simp add: MultiFile_add_def case_prod_beta Let_def)

lemma add_frame:
  "hdl (snd (MultiFile_add os P mf)) = hdl mf"
  "OpenFlags (snd (MultiFile_add os P mf)) = OpenFlags mf"
  "j \<noteq> nat (NumCopies mf) \<Longrightarrow> copies (snd (MultiFile_add os P mf)) ! j = copies mf ! j"
  by (simp_all add: MultiFile_add_def case_prod_beta Let_def)

lemma add_copies:
  "0 \<le> NumCopies mf \<Longrightarrow> NumCopies mf < 5 \<Longrightarrow>
     copies (snd (MultiFile_add os P mf))
       = (copies mf)[nat (NumCopies mf) :=
            snd (FileRW_open_impl os P (OpenFlags mf) (copies mf ! nat (NumCopies mf)))]"
  by (simp add: MultiFile_add_def case_prod_beta Let_def)

lemma add_fail_participants:
  "\<not> fst (MultiFile_add os P mf) \<Longrightarrow> participants (snd (MultiFile_add os P mf)) = participants mf"
  by (auto simp add: MultiFile_add_def participants_def case_prod_beta Let_def split: if_splits)


text \<open>
  Claim C5, as the code has it. \<open>add\<close> fails and changes nothing when five secondaries
  are registered. Below five, its result is the result of \<open>open_\<close> on the next unused
  slot with the stored \<open>OpenFlags\<close>, and that slot holds the handle as \<open>open_\<close> left it.
  A failed \<open>add\<close> leaves the count, the flags, the primary and every registered
  secondary as they were; a successful one adds exactly one to the count and leaves the
  flags, the primary and the other slots as they were.
\<close>

theorem C5_add_fails_or_adds_one:
  "(NumCopies mf < 0 \<or> 5 \<le> NumCopies mf \<longrightarrow> MultiFile_add os_open Path mf = (False, mf))
   \<and> (0 \<le> NumCopies mf \<and> NumCopies mf < 5 \<longrightarrow>
        fst (MultiFile_add os_open Path mf)
          = fst (FileRW_open_impl os_open Path (OpenFlags mf) (copies mf ! nat (NumCopies mf)))
        \<and> copies (snd (MultiFile_add os_open Path mf))
          = (copies mf)[nat (NumCopies mf) :=
               snd (FileRW_open_impl os_open Path (OpenFlags mf) (copies mf ! nat (NumCopies mf)))])
   \<and> hdl (snd (MultiFile_add os_open Path mf)) = hdl mf
   \<and> OpenFlags (snd (MultiFile_add os_open Path mf)) = OpenFlags mf
   \<and> (\<not> fst (MultiFile_add os_open Path mf) \<longrightarrow>
        NumCopies (snd (MultiFile_add os_open Path mf)) = NumCopies mf
        \<and> participants (snd (MultiFile_add os_open Path mf)) = participants mf)
   \<and> (fst (MultiFile_add os_open Path mf) \<longrightarrow>
        NumCopies (snd (MultiFile_add os_open Path mf)) = NumCopies mf + 1)"
  using add_fail_five [of mf os_open Path] add_result [of mf os_open Path]
    add_copies [of mf os_open Path] add_frame(1,2) [of os_open Path mf]
    add_fail_participants [of os_open Path mf] add_NumCopies [of os_open Path mf]
  by simp

text \<open>With five secondaries registered a further \<open>add\<close> returns false and the state as
  it was; with two registered, an \<open>add\<close> whose system call is refused fails and keeps
  the count and the participants, and one whose system call is served registers the
  third.\<close>

theorem C5_add_fails_or_adds_one_witness:
  "5 \<le> NumCopies (fst (run ex_seven_adds initial))
   \<and> MultiFile_add (os_open_ok 11) ''b8'' (fst (run ex_seven_adds initial))
        = (False, fst (run ex_seven_adds initial))
   \<and> \<not> fst (MultiFile_add (os_open_err EACCES) ''f.dat.bak3'' (fst ex_two))
   \<and> NumCopies (snd (MultiFile_add (os_open_err EACCES) ''f.dat.bak3'' (fst ex_two))) = 2
   \<and> participants (snd (MultiFile_add (os_open_err EACCES) ''f.dat.bak3'' (fst ex_two)))
        = participants (fst ex_two)
   \<and> fst (MultiFile_add (os_open_ok 6) ''f.dat.bak3'' (fst ex_two))
   \<and> NumCopies (snd (MultiFile_add (os_open_ok 6) ''f.dat.bak3'' (fst ex_two))) = 3"
proof -
  have five: "5 \<le> NumCopies (fst (run ex_seven_adds initial))"
    by code_simp
  have refused: "\<not> fst (MultiFile_add (os_open_err EACCES) ''f.dat.bak3'' (fst ex_two))"
    by code_simp
  have served: "fst (MultiFile_add (os_open_ok 6) ''f.dat.bak3'' (fst ex_two))"
    by code_simp
  have two: "NumCopies (fst ex_two) = 2"
    by (simp add: ex_two_state)
  show ?thesis
    using five refused served two
      C5_add_fails_or_adds_one [of "fst (run ex_seven_adds initial)" "os_open_ok 11" "''b8''"]
      C5_add_fails_or_adds_one [of "fst ex_two" "os_open_err EACCES" "''f.dat.bak3''"]
      C5_add_fails_or_adds_one [of "fst ex_two" "os_open_ok 6" "''f.dat.bak3''"]
    by simp
qed

text \<open>
  Claim C5 as stated fails: a failed \<open>add\<close> can change the state. On the coordinator that
  was opened again without a \<open>close\<close>, slot 0 still holds the open handle of the former
  secondary; \<open>add\<close> finds it open, closes it and fails, and the same call then succeeds.
  On a freshly created coordinator, an \<open>add\<close> whose system call is refused with
  \<open>EACCES\<close> fails and leaves the refusal's flags in slot 0.
\<close>

theorem C5_failed_add_changes_slot_counterexample:
  "fst (MultiFile_add (os_open_ok 6) ''g.dat.bak1'' (fst ex_reopened)) = False
   \<and> snd (MultiFile_add (os_open_ok 6) ''g.dat.bak1'' (fst ex_reopened)) \<noteq> fst ex_reopened
   \<and> f_handle (copies (fst ex_reopened) ! 0) = 4
   \<and> f_handle (copies (snd (MultiFile_add (os_open_ok 6) ''g.dat.bak1'' (fst ex_reopened))) ! 0) = -1
   \<and> fst (MultiFile_add (os_open_ok 6) ''g.dat.bak1''
           (snd (MultiFile_add (os_open_ok 6) ''g.dat.bak1'' (fst ex_reopened)))) = True
   \<and> fst (MultiFile_add (os_open_err EACCES) ''f.dat.bak1'' (fst ex_created)) = False
   \<and> snd (MultiFile_add (os_open_err EACCES) ''f.dat.bak1'' (fst ex_created)) \<noteq> fst ex_created"
  by code_simp

section \<open>Registered secondaries\<close>















section \<open>Comparing two files\<close>

lemma mismatches_append:
  "length xs = length ys \<Longrightarrow>
     mismatches (xs @ xs') (ys @ ys') = mismatches xs ys + mismatches xs' ys'"
  by (simp add: mismatches_def)

lemma mismatches_split:
  "mismatches xs ys = mismatches (take m xs) (take m ys) + mismatches (drop m xs) (drop m ys)"
proof -
  have "zip xs ys = zip (take m xs) (take m ys) @ zip (drop m xs) (drop m ys)"
    by (simp add: take_zip [symmetric] drop_zip [symmetric])
  then show ?thesis by (simp add: mismatches_def)
qed

lemma compare_chunk_fold:
  "m \<le> length A \<Longrightarrow> m \<le> length B \<Longrightarrow>
     fold (\<lambda>i cnt. if A ! i \<noteq> B ! i then cnt + 1 else cnt) [0..<m] (cnt::int)
       = cnt + int (mismatches (take m A) (take m B))"
proof (induction m)
  case 0
  show ?case by (simp add: mismatches_def)
next
  case (Suc m)
  then have m: "m < length A" "m < length B" by simp_all
  have "mismatches (take (Suc m) A) (take (Suc m) B)
          = mismatches (take m A) (take m B) + (if A ! m \<noteq> B ! m then 1 else 0)"
    using m by (simp add: take_Suc_conv_app_nth mismatches_append) (simp add: mismatches_def)
  then show ?case using Suc by simp
qed

lemma compare_chunk_eq:
  assumes "length xs = nat L" and "length ys = nat L"
  shows "compare_chunk (xs @ r1) (ys @ r2) L cnt = cnt + int (mismatches xs ys)"
  unfolding compare_chunk_def
  using compare_chunk_fold [of "nat L" "xs @ r1" "ys @ r2" cnt] assms by simp


lemma size_t_of_chunk:
  assumes "0 < L" and "L \<le> 4096"
  shows "size_t_of_int L = nat L" and "unsigned_of_size_t (nat L) = nat L"
    and "size_t_of_int (int (nat L)) = nat L"
  using assms by (simp_all add: size_t_of_int_def unsigned_of_size_t_def)

lemma compare_reads_ok:
  assumes L: "0 < L" "L \<le> 4096"
    and r1: "pos (cfile1 st) + nat L \<le> length (content (cfile1 st))"
    and r2: "pos (cfile2 st) + nat L \<le> length (content (cfile2 st))"
  shows "compare_reads L st =
     Some \<lparr>cF1 = cF1 st, cF2 = cF2 st,
           cV1 = take (nat L) (drop (pos (cfile1 st)) (content (cfile1 st))) @ drop (nat L) (cV1 st),
           cV2 = take (nat L) (drop (pos (cfile2 st)) (content (cfile2 st))) @ drop (nat L) (cV2 st),
           cfile1 = (cfile1 st)\<lparr>pos := pos (cfile1 st) + nat L\<rparr>,
           cfile2 = (cfile2 st)\<lparr>pos := pos (cfile2 st) + nat L\<rparr>\<rparr>"
proof -
  have l1: "length (take (nat L) (drop (pos (cfile1 st)) (content (cfile1 st)))) = nat L"
    using r1 by simp
  have l2: "length (take (nat L) (drop (pos (cfile2 st)) (content (cfile2 st)))) = nat L"
    using r2 by simp
  show ?thesis
    unfolding compare_reads_def BasicFile_read_def fs_read_def fs_advance_def os_store_def
      Let_def case_prod_beta size_t_of_chunk(1,2) [OF L] fst_conv snd_conv l1 l2
      size_t_of_chunk(3) [OF L]
    by simp
qed

lemma compare_loop_counts:
  assumes "content (cfile1 st) = c1" and "content (cfile2 st) = c2"
    and "length c1 = n" and "length c2 = n"
    and "pos (cfile1 st) = p" and "pos (cfile2 st) = p" and "p \<le> n"
  shows "compare_loop (int (n - p)) cnt st
           = int_of_int64 (cnt + int (mismatches (drop p c1) (drop p c2)))"
  using assms
proof (induction "n - p" arbitrary: p cnt st rule: less_induct)
  case less
  show ?case
  proof (cases "n - p = 0")
    case True
    then have "drop p c1 = []" using less.prems by simp
    then show ?thesis using True
      by (subst compare_loop.simps) (simp add: mismatches_def)
  next
    case False
    define L :: int where "L = (if int (n - p) > 4096 then 4096 else int (n - p))"
    have L: "0 < L" "L \<le> 4096" "nat L \<le> n - p"
      using False by (auto simp: L_def)
    have r1: "pos (cfile1 st) + nat L \<le> length (content (cfile1 st))"
      and r2: "pos (cfile2 st) + nat L \<le> length (content (cfile2 st))"
      using L(3) less.prems by simp_all
    define st' where "st' =
      \<lparr>cF1 = cF1 st, cF2 = cF2 st,
           cV1 = take (nat L) (drop p c1) @ drop (nat L) (cV1 st),
           cV2 = take (nat L) (drop p c2) @ drop (nat L) (cV2 st),
           cfile1 = (cfile1 st)\<lparr>pos := p + nat L\<rparr>,
           cfile2 = (cfile2 st)\<lparr>pos := p + nat L\<rparr>\<rparr>"
    have reads: "compare_reads L st = Some st'"
      using compare_reads_ok [OF L(1,2) r1 r2] less.prems by (simp add: st'_def)
    have chunk: "compare_chunk (cV1 st') (cV2 st') L cnt
                   = cnt + int (mismatches (take (nat L) (drop p c1)) (take (nat L) (drop p c2)))"
      unfolding st'_def using L(3) less.prems
      by (simp add: compare_chunk_eq)
    have rest: "int (n - p) - L = int (n - (p + nat L))"
      using L by simp
    have IH: "compare_loop (int (n - (p + nat L)))
                (cnt + int (mismatches (take (nat L) (drop p c1)) (take (nat L) (drop p c2)))) st'
              = int_of_int64 (cnt + int (mismatches (take (nat L) (drop p c1)) (take (nat L) (drop p c2)))
                  + int (mismatches (drop (p + nat L) c1) (drop (p + nat L) c2)))"
      using L less.prems False
      by (intro less.hyps) (simp_all add: st'_def)
    have split: "mismatches (drop p c1) (drop p c2)
        = mismatches (take (nat L) (drop p c1)) (take (nat L) (drop p c2))
          + mismatches (drop (p + nat L) c1) (drop (p + nat L) c2)"
      using mismatches_split [of "drop p c1" "drop p c2" "nat L"] by (simp add: add.commute)
    have step: "compare_loop (int (n - p)) cnt st
        = (case compare_reads L st of
             None \<Rightarrow> -1
           | Some st' \<Rightarrow>
               compare_loop (int (n - p) - L) (compare_chunk (cV1 st') (cV2 st') L cnt) st')"
      unfolding L_def using False by (subst compare_loop.simps) simp
    show ?thesis
      by (simp add: step reads chunk rest IH split add.assoc)
  qed
qed


lemma fill_open_errors_0: "fill_open_errors 0 = 0"
  by (simp add: fill_open_errors_def assign_field_def)

lemma FileRO_open_Some:
  "fs P = Some c \<Longrightarrow> fd \<noteq> -1 \<Longrightarrow>
     FileRO_open (fs_open fs fd) P fl BasicFile_init = (True, \<lparr>f_handle = fd, e_flags = 0\<rparr>)"
  by (simp add: FileRO_open_def BasicFile_open_def fs_open_def BasicFile_init_def
        fill_open_errors_0 BasicFile_good_def ef_good_def Let_def)

lemma FileRO_open_None:
  "fs P = None \<Longrightarrow> fst (FileRO_open (fs_open fs fd) P fl BasicFile_init) = False"
  by (simp add: FileRO_open_def BasicFile_open_def fs_open_def BasicFile_init_def
        BasicFile_good_def ef_good_def Let_def EF_open_def or_eq_0_iff)

text \<open>What \<open>compare\<close> returns: \<open>-1\<close> when a file cannot be opened or the lengths
  differ, and otherwise the number of differing positions converted to \<open>int\<close>; so 0
  for identical files, and the exact number while it is below \<open>2 ^ 31\<close>.\<close>

lemma compare_unopenable:
  "fs P1 = None \<or> fs P2 = None \<Longrightarrow> compare fs P1 P2 = -1"
  by (auto simp add: compare_def Let_def case_prod_beta FileRO_open_None)

lemma compare_lengths_differ:
  "fs P1 = Some c1 \<Longrightarrow> fs P2 = Some c2 \<Longrightarrow> length c1 \<noteq> length c2 \<Longrightarrow> compare fs P1 P2 = -1"
  by (simp add: compare_def Let_def case_prod_beta FileRO_open_Some BasicFile_length_def
        fs_size_def fs_file_def)

lemma compare_counts:
  assumes "fs P1 = Some c1" and "fs P2 = Some c2" and "length c1 = length c2"
  shows "compare fs P1 P2 = int_of_int64 (int (mismatches c1 c2))"
proof -
  have "compare_loop (int (length c1 - 0)) 0
          \<lparr>cF1 = \<lparr>f_handle = 3, e_flags = 0\<rparr>, cF2 = \<lparr>f_handle = 4, e_flags = 0\<rparr>,
           cV1 = replicate 4096 0, cV2 = replicate 4096 0,
           cfile1 = fs_file fs P1, cfile2 = fs_file fs P2\<rparr>
        = int_of_int64 (0 + int (mismatches (drop 0 c1) (drop 0 c2)))"
    using assms by (intro compare_loop_counts [where n = "length c1"]) (simp_all add: fs_file_def)
  then show ?thesis
    using assms
    by (simp add: compare_def Let_def case_prod_beta FileRO_open_Some BasicFile_length_def
        fs_size_def fs_file_def)
qed


lemma mismatches_same: "mismatches c c = 0"
  by (induction c) (simp_all add: mismatches_def)

lemma compare_identical:
  "fs P1 = Some c \<Longrightarrow> fs P2 = Some c \<Longrightarrow> compare fs P1 P2 = 0"
  by (simp add: compare_counts mismatches_same int_of_int64_def)

lemma int_of_int64_small: "0 \<le> c \<Longrightarrow> c < 2 ^ 31 \<Longrightarrow> int_of_int64 c = c"
  unfolding int_of_int64_def
  by (simp add: sint_sbintrunc' signed_take_bit_int_eq_self)

lemma compare_exact_below_2_31:
  assumes "fs P1 = Some c1" and "fs P2 = Some c2" and "length c1 = length c2"
    and "mismatches c1 c2 < 2 ^ 31"
  shows "compare fs P1 P2 = int (mismatches c1 c2)"
  using assms(4) by (simp add: compare_counts [OF assms(1-3)] int_of_int64_small)

lemma mismatches_replicate:
  "a \<noteq> b \<Longrightarrow> mismatches (replicate n a) (replicate n b) = n"
  by (simp add: mismatches_def)

text \<open>
  Claim C6. Where both files open and have the same length, \<open>compare\<close> is to return the
  exact number of differing positions. The count is an \<open>int64_t\<close> and is returned
  through \<open>int(cnt)\<close>: for the two files of \<open>2 ^ 32\<close> bytes that differ at every
  position, \<open>compare\<close> returns 0, the result for identical files.
\<close>

theorem C6_compare_returns_0_for_4GiB_of_differences:
  "ex_fs_big ''a.bin'' = Some (replicate four_GiB 0)
   \<and> ex_fs_big ''b.bin'' = Some (replicate four_GiB 1)
   \<and> mismatches (replicate four_GiB 0) (replicate four_GiB (1::byte)) = 2 ^ 32
   \<and> compare ex_fs_big ''a.bin'' ''b.bin'' = 0"
proof -
  have a: "ex_fs_big ''a.bin'' = Some (replicate four_GiB 0)"
    and b: "ex_fs_big ''b.bin'' = Some (replicate four_GiB 1)"
    by (simp_all add: ex_fs_big_def)
  have m: "mismatches (replicate four_GiB 0) (replicate four_GiB (1::byte)) = four_GiB"
    by (rule mismatches_replicate) simp
  have "compare ex_fs_big ''a.bin'' ''b.bin'' = int_of_int64 (int four_GiB)"
    using compare_counts [OF a b] m by simp
  also have "\<dots> = 0"
    by (simp add: int_of_int64_def four_GiB_def)
  finally have c: "compare ex_fs_big ''a.bin'' ''b.bin'' = 0" .
  have "four_GiB = 2 ^ 32" by (simp add: four_GiB_def)
  with a b m c show ?thesis by simp
qed

end
